theory Spec2Isabelle
  imports Complex_Main "HOL-Library.Sublist"
begin

section \<open>Linear programs as the notebooks build them\<close>

text \<open>
  The notebooks build Pyomo models: a model carries declared variables (each with a
  domain), one objective with a sense, and named constraints whose sides are arithmetic
  expressions over the variables. The embedding keeps that structure as data and gives
  it the usual meaning: an assignment of reals to the variable names is feasible when
  every variable lies in its domain and every constraint holds.

  Python evaluates the coefficients \<^verbatim>\<open>7 / 6\<close> and \<^verbatim>\<open>5 / 6\<close> in binary floating point;
  here they are the rationals 7/6 and 5/6, as in the formulas of the notebooks' text.
\<close>

datatype domain = Reals | NonNegativeReals | PositiveReals

datatype sense = maximize | minimize

datatype expr =
    Num real
  | Var string
  | Add expr expr
  | Sub expr expr
  | Mul expr expr

datatype relation = Le expr expr | Eq expr expr

record model =
  name :: string
  vars :: "(string \<times> domain) list"
  sense_of :: sense
  objective :: expr
  constraints :: "(string \<times> relation) list"

type_synonym assignment = "string \<Rightarrow> real"

fun in_domain :: "domain \<Rightarrow> real \<Rightarrow> bool" where
  "in_domain Reals v = True"
| "in_domain NonNegativeReals v = (0 \<le> v)"
| "in_domain PositiveReals v = (0 < v)"

text \<open>\<^verbatim>\<open>pyo.value\<close> of an expression under the values of the variables.\<close>

fun pyo_value :: "assignment \<Rightarrow> expr \<Rightarrow> real" where
  "pyo_value a (Num r) = r"
| "pyo_value a (Var v) = a v"
| "pyo_value a (Add e f) = pyo_value a e + pyo_value a f"
| "pyo_value a (Sub e f) = pyo_value a e - pyo_value a f"
| "pyo_value a (Mul e f) = pyo_value a e * pyo_value a f"

fun holds :: "assignment \<Rightarrow> relation \<Rightarrow> bool" where
  "holds a (Le e f) = (pyo_value a e \<le> pyo_value a f)"
| "holds a (Eq e f) = (pyo_value a e = pyo_value a f)"

fun expr_vars :: "expr \<Rightarrow> string set" where
  "expr_vars (Num r) = {}"
| "expr_vars (Var v) = {v}"
| "expr_vars (Add e f) = expr_vars e \<union> expr_vars f"
| "expr_vars (Sub e f) = expr_vars e \<union> expr_vars f"
| "expr_vars (Mul e f) = expr_vars e \<union> expr_vars f"

fun relation_vars :: "relation \<Rightarrow> string set" where
  "relation_vars (Le e f) = expr_vars e \<union> expr_vars f"
| "relation_vars (Eq e f) = expr_vars e \<union> expr_vars f"

definition feasible :: "model \<Rightarrow> assignment \<Rightarrow> bool" where
  "feasible m a =
     (list_all (\<lambda>(v, d). in_domain d (a v)) (vars m) \<and>
      list_all (\<lambda>(n, c). holds a c) (constraints m))"

definition objective_value :: "model \<Rightarrow> assignment \<Rightarrow> real" where
  "objective_value m a = pyo_value a (objective m)"

text \<open>What the solver is asked for: a feasible assignment no feasible assignment beats.\<close>

definition is_optimal :: "model \<Rightarrow> assignment \<Rightarrow> bool" where
  "is_optimal m a =
     (feasible m a \<and>
      (\<forall>b. feasible m b \<longrightarrow>
         (case sense_of m of
            maximize \<Rightarrow> objective_value m b \<le> objective_value m a
          | minimize \<Rightarrow> objective_value m a \<le> objective_value m b)))"

definition optimal_value :: "model \<Rightarrow> real \<Rightarrow> bool" where
  "optimal_value m v = (\<exists>a. is_optimal m a \<and> objective_value m a = v)"

subsection \<open>The four resource rows shared by every model\<close>

definition silicon :: "string \<times> relation" where
  "silicon = (''silicon'', Le (Var ''x1'') (Num 1000))"

definition germanium :: "string \<times> relation" where
  "germanium = (''germanium'', Le (Var ''x2'') (Num 1500))"

definition plastic :: "string \<times> relation" where
  "plastic = (''plastic'', Le (Add (Var ''x1'') (Var ''x2'')) (Num 1750))"

definition copper :: "string \<times> relation" where
  "copper =
     (''copper'', Le (Add (Mul (Num 4) (Var ''x1'')) (Mul (Num 2) (Var ''x2''))) (Num 4800))"

subsection \<open>Notebook 2.5: revenues minus costs\<close>

definition revenue :: "string \<Rightarrow> string \<Rightarrow> expr" where
  "revenue u w = Add (Mul (Num 12) (Var u)) (Mul (Num 9) (Var w))"

definition variable_cost :: "string \<Rightarrow> string \<Rightarrow> expr" where
  "variable_cost u w = Add (Mul (Num (7 / 6)) (Var u)) (Mul (Num (5 / 6)) (Var w))"

definition fixed_cost :: real where
  "fixed_cost = 100"

definition BIM_with_revenues_minus_costs :: model where
  "BIM_with_revenues_minus_costs =
     \<lparr> name = ''BIM with revenues minus costs'',
       vars = [(''x1'', NonNegativeReals), (''x2'', NonNegativeReals)],
       sense_of = maximize,
       objective = Sub (Sub (revenue ''x1'' ''x2'') (variable_cost ''x1'' ''x2'')) (Num fixed_cost),
       constraints = [silicon, germanium, plastic, copper] \<rparr>"

text \<open>
  The values the cell prints after solving, before formatting: \<^verbatim>\<open>x1\<close>, \<^verbatim>\<open>x2\<close>, the
  objective, the revenue, and variable plus fixed cost.
\<close>

definition BIM_linear_report :: "assignment \<Rightarrow> real list" where
  "BIM_linear_report a =
     [pyo_value a (Var ''x1''),
      pyo_value a (Var ''x2''),
      objective_value BIM_with_revenues_minus_costs a,
      pyo_value a (revenue ''x1'' ''x2''),
      pyo_value a (variable_cost ''x1'' ''x2'') + fixed_cost]"

subsection \<open>Notebook 2.5: revenues over costs\<close>

definition BIM_with_revenues_over_costs :: model where
  "BIM_with_revenues_over_costs =
     \<lparr> name = ''BIM with revenues over costs'',
       vars = [(''y1'', NonNegativeReals), (''y2'', NonNegativeReals), (''t'', PositiveReals)],
       sense_of = maximize,
       objective = revenue ''y1'' ''y2'',
       constraints =
         [(''silicon'', Le (Var ''y1'') (Mul (Num 1000) (Var ''t''))),
          (''germanium'', Le (Var ''y2'') (Mul (Num 1500) (Var ''t''))),
          (''plastic'', Le (Add (Var ''y1'') (Var ''y2'')) (Mul (Num 1750) (Var ''t''))),
          (''copper'',
             Le (Add (Mul (Num 4) (Var ''y1'')) (Mul (Num 2) (Var ''y2'')))
                (Mul (Num 4800) (Var ''t''))),
          (''frac'',
             Eq (Add (variable_cost ''y1'' ''y2'') (Mul (Num fixed_cost) (Var ''t'')))
                (Num 1))] \<rparr>"

datatype error = AssertionError string | ZeroDivisionError | ApplicationError string

text \<open>
  After solving, the cell reads \<^verbatim>\<open>t\<close> and divides by it: the point \<^verbatim>\<open>(y1 / t, y2 / t)\<close>,
  the objective over \<^verbatim>\<open>variable_cost + fixed_cost * t\<close>, the revenue over \<^verbatim>\<open>t\<close>, and
  the variable cost over \<^verbatim>\<open>t\<close> plus the fixed cost. A zero divisor raises.
\<close>

definition recovered :: "assignment \<Rightarrow> real \<times> real" where
  "recovered a = (a ''y1'' / a ''t'', a ''y2'' / a ''t'')"

definition BIM_fractional_report :: "assignment \<Rightarrow> error + real list" where
  "BIM_fractional_report a =
     (let t = pyo_value a (Var ''t'');
          denominator = pyo_value a (variable_cost ''y1'' ''y2'') + fixed_cost * t
      in if t = 0 \<or> denominator = 0 then Inl ZeroDivisionError
         else Inr [fst (recovered a),
                   snd (recovered a),
                   objective_value BIM_with_revenues_over_costs a / denominator,
                   pyo_value a (revenue ''y1'' ''y2'') / t,
                   pyo_value a (variable_cost ''y1'' ''y2'') / t + fixed_cost])"

subsection \<open>Notebook 2.4: the worst case over price scenarios\<close>

text \<open>
  The loop \<^verbatim>\<open>for c1, c2 in costs: m.maxmin.add(expr=m.z <= c1 * m.x1 + c2 * m.x2)\<close> adds
  one row per pair, in the order of the list. The variable \<^verbatim>\<open>z\<close> is declared by
  \<^verbatim>\<open>pyo.Var()\<close> with no domain, which is all of the reals.
\<close>

primrec maxmin_add :: "(real \<times> real) list \<Rightarrow> (string \<times> relation) list" where
  "maxmin_add [] = []"
| "maxmin_add (c # costs) =
     (''maxmin'',
      Le (Var ''z'') (Add (Mul (Num (fst c)) (Var ''x1'')) (Mul (Num (snd c)) (Var ''x2''))))
     # maxmin_add costs"

definition BIM_maxmin :: "(real \<times> real) list \<Rightarrow> model" where
  "BIM_maxmin costs =
     \<lparr> name = ''BIM production planning with maxmin objective'',
       vars = [(''x1'', NonNegativeReals), (''x2'', NonNegativeReals), (''z'', Reals)],
       sense_of = maximize,
       objective = Var ''z'',
       constraints = maxmin_add costs @ [silicon, germanium, plastic, copper] \<rparr>"

definition price_scenarios :: "(real \<times> real) list" where
  "price_scenarios = [(12, 9), (11, 10), (8, 11)]"

subsection \<open>The notebooks as runs\<close>

text \<open>
  A notebook is its code cells run in order, stopping at the first exception. A run is
  recorded as the trace of the calls that reach the outside: package installation, the
  solver factory, the availability test, each solve, and each printed line (the numbers
  handed to the format string).

  The solver is a parameter. The call \<^verbatim>\<open>SOLVER.available()\<close> either returns a truth value
  or raises an exception of the solver interface's own, carrying the interface's message
  (\<^verbatim>\<open>ApplicationError\<close>); \<^verbatim>\<open>SOLVER.solve\<close> loads an assignment into the model it is
  handed. Two facts of the interpreter are parameters as well: whether the notebook runs
  on Colab, and whether \<^verbatim>\<open>assert\<close> statements are executed (Python's \<^verbatim>\<open>__debug__\<close>,
  false under \<^verbatim>\<open>python -O\<close>, where an \<^verbatim>\<open>assert\<close> and the test in it are skipped). A
  run starts where the imports of the first cell have succeeded; an import that fails
  raises before \<^verbatim>\<open>SOLVER\<close> exists and nothing of the notebook runs.
\<close>

record solver_interface =
  available :: "error + bool"
  solve :: "model \<Rightarrow> assignment"

datatype event =
    Pip_install string
  | SolverFactory string
  | Available
  | Solve model
  | Print "real list"

type_synonym run = "(error \<times> event list) + event list"

definition solver :: string where
  "solver = ''appsi_highs''"

definition pip_installs :: "bool \<Rightarrow> event list" where
  "pip_installs colab = (if colab then [Pip_install ''pyomo'', Pip_install ''highspy''] else [])"

definition preamble :: "bool \<Rightarrow> bool \<Rightarrow> solver_interface \<Rightarrow> event list \<Rightarrow> run" where
  "preamble debug colab SOLVER tr =
     (let tr1 = tr @ pip_installs colab @ [SolverFactory solver]
      in if \<not> debug then Inr tr1
         else case available SOLVER of
                Inl e \<Rightarrow> Inl (e, tr1 @ [Available])
              | Inr ok \<Rightarrow>
                  if ok then Inr (tr1 @ [Available])
                  else Inl (AssertionError (''Solver '' @ solver @ '' is not available.''),
                            tr1 @ [Available]))"

definition maxmin_cell :: "solver_interface \<Rightarrow> event list \<Rightarrow> run" where
  "maxmin_cell SOLVER tr =
     (let m = BIM_maxmin price_scenarios;
          a = solve SOLVER m
      in Inr (tr @ [Solve m,
                    Print [pyo_value a (Var ''x1''), pyo_value a (Var ''x2'')],
                    Print [objective_value m a]]))"

definition BIM_linear_cell :: "solver_interface \<Rightarrow> event list \<Rightarrow> run" where
  "BIM_linear_cell SOLVER tr =
     (let BIM_linear = BIM_with_revenues_minus_costs;
          a = solve SOLVER BIM_linear
      in Inr (tr @ [Solve BIM_linear, Print (BIM_linear_report a)]))"

definition BIM_fractional_cell :: "solver_interface \<Rightarrow> event list \<Rightarrow> run" where
  "BIM_fractional_cell SOLVER tr =
     (let BIM_fractional = BIM_with_revenues_over_costs;
          a = solve SOLVER BIM_fractional;
          tr1 = tr @ [Solve BIM_fractional]
      in case BIM_fractional_report a of
           Inl e \<Rightarrow> Inl (e, tr1)
         | Inr line \<Rightarrow> Inr (tr1 @ [Print line]))"

definition and_then :: "run \<Rightarrow> (event list \<Rightarrow> run) \<Rightarrow> run" where
  "and_then r cell = (case r of Inl e \<Rightarrow> Inl e | Inr tr \<Rightarrow> cell tr)"

definition notebook_04 :: "bool \<Rightarrow> bool \<Rightarrow> solver_interface \<Rightarrow> run" where
  "notebook_04 debug colab SOLVER =
     and_then (preamble debug colab SOLVER []) (maxmin_cell SOLVER)"

definition notebook_05 :: "bool \<Rightarrow> bool \<Rightarrow> solver_interface \<Rightarrow> run" where
  "notebook_05 debug colab SOLVER =
     and_then (and_then (preamble debug colab SOLVER []) (BIM_linear_cell SOLVER))
       (BIM_fractional_cell SOLVER)"

definition trace :: "run \<Rightarrow> event list" where
  "trace r = (case r of Inl (e, tr) \<Rightarrow> tr | Inr tr \<Rightarrow> tr)"

fun solved :: "event list \<Rightarrow> model list" where
  "solved [] = []"
| "solved (Solve m # tr) = m # solved tr"
| "solved (_ # tr) = solved tr"

text \<open>
  A solver for running the notebooks on: the outcome of its availability test is given,
  and it loads the same given assignment into whatever model it is handed.
\<close>

definition stub_solver :: "error + bool \<Rightarrow> assignment \<Rightarrow> solver_interface" where
  "stub_solver av a = \<lparr>available = av, solve = (\<lambda>m. a)\<rparr>"


text \<open>The values the solver reports for the three models, as one assignment.\<close>

definition reported :: assignment where
  "reported = (\<lambda>_. 0)(''x1'' := 650, ''x2'' := 1100, ''y1'' := 30 / 197, ''y2'' := 180 / 197,
                        ''t'' := 3 / 4925)"

subsection \<open>The problems the models stand for\<close>

text \<open>
  The original production problem of the notebooks' text: the four resource limits and
  non-negative quantities. The two objectives the linearizations replace are the worst
  revenue over the price pairs and the ratio of revenue to cost.
\<close>

definition BIM_region :: "real \<Rightarrow> real \<Rightarrow> bool" where
  "BIM_region x1 x2 =
     (0 \<le> x1 \<and> 0 \<le> x2 \<and> x1 \<le> 1000 \<and> x2 \<le> 1500 \<and> x1 + x2 \<le> 1750 \<and>
      4 * x1 + 2 * x2 \<le> 4800)"

definition worst_case :: "(real \<times> real) list \<Rightarrow> real \<Rightarrow> real \<Rightarrow> real" where
  "worst_case costs x1 x2 = Min ((\<lambda>(c1, c2). c1 * x1 + c2 * x2) ` set costs)"

definition efficiency :: "real \<Rightarrow> real \<Rightarrow> real" where
  "efficiency x1 x2 = (12 * x1 + 9 * x2) / (7 / 6 * x1 + 5 / 6 * x2 + 100)"

subsection \<open>Assignments\<close>

definition point2 :: "real \<Rightarrow> real \<Rightarrow> assignment" where
  "point2 a b = (\<lambda>_. 0)(''x1'' := a, ''x2'' := b)"

definition point3 :: "real \<Rightarrow> real \<Rightarrow> real \<Rightarrow> assignment" where
  "point3 a b c = (\<lambda>_. 0)(''x1'' := a, ''x2'' := b, ''z'' := c)"

definition scaled :: "real \<Rightarrow> real \<Rightarrow> real \<Rightarrow> assignment" where
  "scaled a b c = (\<lambda>_. 0)(''y1'' := a, ''y2'' := b, ''t'' := c)"

text \<open>
  The change of variables of the fractional model, from a production point to the
  scaled variables: divide by the cost \<^verbatim>\<open>7/6 * x1 + 5/6 * x2 + 100\<close>.
\<close>

definition linearized :: "real \<Rightarrow> real \<Rightarrow> assignment" where
  "linearized x1 x2 =
     (let d = 7 / 6 * x1 + 5 / 6 * x2 + 100 in scaled (x1 / d) (x2 / d) (1 / d))"

section \<open>Feasibility, read off the models\<close>

lemma feasible_minus_costs:
  "feasible BIM_with_revenues_minus_costs a =
     (0 \<le> a ''x1'' \<and> 0 \<le> a ''x2'' \<and> a ''x1'' \<le> 1000 \<and> a ''x2'' \<le> 1500 \<and>
      a ''x1'' + a ''x2'' \<le> 1750 \<and> 4 * a ''x1'' + 2 * a ''x2'' \<le> 4800)"
  by (simp add: feasible_def BIM_with_revenues_minus_costs_def silicon_def germanium_def
      plastic_def copper_def)

lemma objective_minus_costs:
  "objective_value BIM_with_revenues_minus_costs a =
     12 * a ''x1'' + 9 * a ''x2'' - (7 / 6 * a ''x1'' + 5 / 6 * a ''x2'') - 100"
  by (simp add: objective_value_def BIM_with_revenues_minus_costs_def revenue_def
      variable_cost_def fixed_cost_def)

lemma point2_simps:
  "point2 a b ''x1'' = a" "point2 a b ''x2'' = b"
  by (simp_all add: point2_def)

lemma point3_simps:
  "point3 a b c ''x1'' = a" "point3 a b c ''x2'' = b" "point3 a b c ''z'' = c"
  by (simp_all add: point3_def)

lemma scaled_simps:
  "scaled a b c ''y1'' = a" "scaled a b c ''y2'' = b" "scaled a b c ''t'' = c"
  by (simp_all add: scaled_def)

lemma feasible_over_costs:
  "feasible BIM_with_revenues_over_costs a =
     (0 \<le> a ''y1'' \<and> 0 \<le> a ''y2'' \<and> 0 < a ''t'' \<and>
      a ''y1'' \<le> 1000 * a ''t'' \<and> a ''y2'' \<le> 1500 * a ''t'' \<and>
      a ''y1'' + a ''y2'' \<le> 1750 * a ''t'' \<and>
      4 * a ''y1'' + 2 * a ''y2'' \<le> 4800 * a ''t'' \<and>
      7 / 6 * a ''y1'' + 5 / 6 * a ''y2'' + 100 * a ''t'' = 1)"
  by (simp add: feasible_def BIM_with_revenues_over_costs_def variable_cost_def fixed_cost_def)

lemma objective_over_costs:
  "objective_value BIM_with_revenues_over_costs a = 12 * a ''y1'' + 9 * a ''y2''"
  by (simp add: objective_value_def BIM_with_revenues_over_costs_def revenue_def)

subsection \<open>The maximin model\<close>

lemma maxmin_add_all:
  "list_all (\<lambda>(n, c). holds a c) (maxmin_add costs) =
     (\<forall>c \<in> set costs. a ''z'' \<le> fst c * a ''x1'' + snd c * a ''x2'')"
  by (induction costs) simp_all

lemma feasible_maxmin:
  "feasible (BIM_maxmin costs) a =
     (BIM_region (a ''x1'') (a ''x2'') \<and>
      (\<forall>c \<in> set costs. a ''z'' \<le> fst c * a ''x1'' + snd c * a ''x2''))"
  by (auto simp add: feasible_def BIM_maxmin_def maxmin_add_all BIM_region_def silicon_def
      germanium_def plastic_def copper_def)

lemma objective_maxmin: "objective_value (BIM_maxmin costs) a = a ''z''"
  by (simp add: objective_value_def BIM_maxmin_def)

lemma sense_maxmin: "sense_of (BIM_maxmin costs) = maximize"
  by (simp add: BIM_maxmin_def)

lemma worst_case_bound:
  assumes "costs \<noteq> []"
  shows "(\<forall>c \<in> set costs. z \<le> fst c * x1 + snd c * x2) = (z \<le> worst_case costs x1 x2)"
proof -
  have "(z \<le> worst_case costs x1 x2) =
          (\<forall>v \<in> (\<lambda>(c1, c2). c1 * x1 + c2 * x2) ` set costs. z \<le> v)"
    unfolding worst_case_def using assms by (intro Min_ge_iff) simp_all
  then show ?thesis
    by (auto simp add: case_prod_beta)
qed

lemma feasible_maxmin_worst:
  "costs \<noteq> [] \<Longrightarrow>
   feasible (BIM_maxmin costs) a =
     (BIM_region (a ''x1'') (a ''x2'') \<and> a ''z'' \<le> worst_case costs (a ''x1'') (a ''x2''))"
  by (simp add: feasible_maxmin worst_case_bound)

lemma is_optimal_maxmin:
  "is_optimal (BIM_maxmin costs) a =
     (feasible (BIM_maxmin costs) a \<and>
      (\<forall>b. feasible (BIM_maxmin costs) b \<longrightarrow> b ''z'' \<le> a ''z''))"
  by (simp add: is_optimal_def sense_maxmin objective_maxmin)

lemma feasible_price_scenarios:
  "feasible (BIM_maxmin price_scenarios) a =
     (BIM_region (a ''x1'') (a ''x2'') \<and>
      a ''z'' \<le> 12 * a ''x1'' + 9 * a ''x2'' \<and>
      a ''z'' \<le> 11 * a ''x1'' + 10 * a ''x2'' \<and>
      a ''z'' \<le> 8 * a ''x1'' + 11 * a ''x2'')"
  by (simp add: feasible_maxmin price_scenarios_def)

lemma price_scenarios_bound:
  assumes "feasible (BIM_maxmin price_scenarios) a"
  shows "a ''z'' \<le> 17500"
  using assms unfolding feasible_price_scenarios BIM_region_def by linarith

lemma price_scenarios_optimal:
  "is_optimal (BIM_maxmin price_scenarios) (point3 (1750 / 3) (3500 / 3) 17500)"
  unfolding is_optimal_maxmin
proof (intro conjI allI impI)
  show "feasible (BIM_maxmin price_scenarios) (point3 (1750 / 3) (3500 / 3) 17500)"
    by (simp add: feasible_price_scenarios BIM_region_def point3_simps)
next
  fix b
  assume "feasible (BIM_maxmin price_scenarios) b"
  then show "b ''z'' \<le> point3 (1750 / 3) (3500 / 3) 17500 ''z''"
    by (simp add: point3_simps price_scenarios_bound)
qed

lemma price_scenarios_unique:
  assumes "is_optimal (BIM_maxmin price_scenarios) a"
  shows "a ''x1'' = 1750 / 3 \<and> a ''x2'' = 3500 / 3 \<and> a ''z'' = 17500"
proof -
  from assms have f: "feasible (BIM_maxmin price_scenarios) a"
    and best: "\<And>b. feasible (BIM_maxmin price_scenarios) b \<Longrightarrow> b ''z'' \<le> a ''z''"
    by (simp_all add: is_optimal_maxmin)
  have "feasible (BIM_maxmin price_scenarios) (point3 (1750 / 3) (3500 / 3) 17500)"
    using price_scenarios_optimal by (simp add: is_optimal_maxmin)
  from best [OF this] have "17500 \<le> a ''z''"
    by (simp add: point3_simps)
  with f show ?thesis
    unfolding feasible_price_scenarios BIM_region_def by linarith
qed

lemma maxmin_add_rows:
  "map snd (filter (\<lambda>(n, c). n = ''maxmin'') (maxmin_add costs)) =
     map (\<lambda>(c1, c2). Le (Var ''z'') (Add (Mul (Num c1) (Var ''x1'')) (Mul (Num c2) (Var ''x2''))))
       costs"
  by (induction costs) (simp_all add: case_prod_beta)

lemma maxmin_rows:
  "map snd (filter (\<lambda>(n, c). n = ''maxmin'') (constraints (BIM_maxmin costs))) =
     map (\<lambda>(c1, c2). Le (Var ''z'') (Add (Mul (Num c1) (Var ''x1'')) (Mul (Num c2) (Var ''x2''))))
       costs"
  by (simp add: BIM_maxmin_def maxmin_add_rows silicon_def germanium_def plastic_def copper_def)

lemma maxmin_sup:
  assumes "costs \<noteq> []" and "BIM_region x1 x2"
  shows "Sup {objective_value (BIM_maxmin costs) (point3 x1 x2 z) | z.
            feasible (BIM_maxmin costs) (point3 x1 x2 z)} = worst_case costs x1 x2"
proof -
  have "{objective_value (BIM_maxmin costs) (point3 x1 x2 z) | z.
            feasible (BIM_maxmin costs) (point3 x1 x2 z)} = {..worst_case costs x1 x2}"
    using assms by (auto simp add: feasible_maxmin_worst objective_maxmin point3_simps)
  then show ?thesis by simp
qed

lemma maxmin_optimal_value:
  assumes "costs \<noteq> []"
  shows "optimal_value (BIM_maxmin costs) v =
        ((\<exists>x1 x2. BIM_region x1 x2 \<and> worst_case costs x1 x2 = v) \<and>
         (\<forall>x1 x2. BIM_region x1 x2 \<longrightarrow> worst_case costs x1 x2 \<le> v))"
proof
  assume "optimal_value (BIM_maxmin costs) v"
  then obtain a where f: "feasible (BIM_maxmin costs) a"
    and best: "\<And>b. feasible (BIM_maxmin costs) b \<Longrightarrow> b ''z'' \<le> a ''z''"
    and v: "a ''z'' = v"
    by (auto simp add: optimal_value_def is_optimal_maxmin objective_maxmin)
  from f assms have r: "BIM_region (a ''x1'') (a ''x2'')"
    and le: "a ''z'' \<le> worst_case costs (a ''x1'') (a ''x2'')"
    by (simp_all add: feasible_maxmin_worst)
  have up: "worst_case costs x1 x2 \<le> v" if "BIM_region x1 x2" for x1 x2
  proof -
    have "feasible (BIM_maxmin costs) (point3 x1 x2 (worst_case costs x1 x2))"
      using assms that by (simp add: feasible_maxmin_worst point3_simps)
    from best [OF this] show ?thesis
      by (simp add: point3_simps v)
  qed
  from up [OF r] le v have "worst_case costs (a ''x1'') (a ''x2'') = v"
    by simp
  with r up show "(\<exists>x1 x2. BIM_region x1 x2 \<and> worst_case costs x1 x2 = v) \<and>
         (\<forall>x1 x2. BIM_region x1 x2 \<longrightarrow> worst_case costs x1 x2 \<le> v)"
    by blast
next
  assume "(\<exists>x1 x2. BIM_region x1 x2 \<and> worst_case costs x1 x2 = v) \<and>
         (\<forall>x1 x2. BIM_region x1 x2 \<longrightarrow> worst_case costs x1 x2 \<le> v)"
  then obtain x1 x2 where r: "BIM_region x1 x2" and w: "worst_case costs x1 x2 = v"
    and up: "\<And>u1 u2. BIM_region u1 u2 \<Longrightarrow> worst_case costs u1 u2 \<le> v"
    by blast
  have "is_optimal (BIM_maxmin costs) (point3 x1 x2 v)"
    unfolding is_optimal_maxmin
  proof (intro conjI allI impI)
    show "feasible (BIM_maxmin costs) (point3 x1 x2 v)"
      using assms r w by (simp add: feasible_maxmin_worst point3_simps)
  next
    fix b
    assume "feasible (BIM_maxmin costs) b"
    with assms have "BIM_region (b ''x1'') (b ''x2'')"
      and "b ''z'' \<le> worst_case costs (b ''x1'') (b ''x2'')"
      by (simp_all add: feasible_maxmin_worst)
    with up [of "b ''x1''" "b ''x2''"] show "b ''z'' \<le> point3 x1 x2 v ''z''"
      by (simp add: point3_simps)
  qed
  then show "optimal_value (BIM_maxmin costs) v"
    unfolding optimal_value_def by (auto simp add: objective_maxmin point3_simps)
qed

lemma maxmin_single_optimal:
  "is_optimal (BIM_maxmin [(12, 9)]) (point3 650 1100 17700)"
  unfolding is_optimal_maxmin
proof (intro conjI allI impI)
  show "feasible (BIM_maxmin [(12, 9)]) (point3 650 1100 17700)"
    by (simp add: feasible_maxmin BIM_region_def point3_simps)
next
  fix b
  assume "feasible (BIM_maxmin [(12, 9)]) b"
  then have "b ''z'' \<le> 17700"
    unfolding feasible_maxmin BIM_region_def by simp
  then show "b ''z'' \<le> point3 650 1100 17700 ''z''"
    by (simp add: point3_simps)
qed

lemma maxmin_pair_optimal:
  "is_optimal (BIM_maxmin ([(12, 9)] @ [(8, 11)])) (point3 (1750 / 3) (3500 / 3) 17500)"
  unfolding is_optimal_maxmin
proof (intro conjI allI impI)
  show "feasible (BIM_maxmin ([(12, 9)] @ [(8, 11)])) (point3 (1750 / 3) (3500 / 3) 17500)"
    by (simp add: feasible_maxmin BIM_region_def point3_simps)
next
  fix b
  assume "feasible (BIM_maxmin ([(12, 9)] @ [(8, 11)])) b"
  then have "b ''z'' \<le> 17500"
    unfolding feasible_maxmin BIM_region_def by simp
  then show "b ''z'' \<le> point3 (1750 / 3) (3500 / 3) 17500 ''z''"
    by (simp add: point3_simps)
qed

lemma feasible_maxmin_append:
  "feasible (BIM_maxmin (costs @ [c])) a \<Longrightarrow> feasible (BIM_maxmin costs) a"
  by (simp add: feasible_maxmin)

subsection \<open>The fractional model\<close>

text \<open>
  The strict bound on \<^verbatim>\<open>t\<close> could be read as \<^verbatim>\<open>t \<ge> 0\<close> without changing the model:
  the silicon, germanium and normalisation rows already exclude \<^verbatim>\<open>t = 0\<close>.
\<close>

lemma feasible_over_costs_closed:
  "feasible BIM_with_revenues_over_costs a =
     (0 \<le> a ''y1'' \<and> 0 \<le> a ''y2'' \<and> 0 \<le> a ''t'' \<and>
      a ''y1'' \<le> 1000 * a ''t'' \<and> a ''y2'' \<le> 1500 * a ''t'' \<and>
      a ''y1'' + a ''y2'' \<le> 1750 * a ''t'' \<and>
      4 * a ''y1'' + 2 * a ''y2'' \<le> 4800 * a ''t'' \<and>
      7 / 6 * a ''y1'' + 5 / 6 * a ''y2'' + 100 * a ''t'' = 1)"
  unfolding feasible_over_costs by linarith

lemma sense_over_costs: "sense_of BIM_with_revenues_over_costs = maximize"
  by (simp add: BIM_with_revenues_over_costs_def)

lemma is_optimal_over_costs:
  "is_optimal BIM_with_revenues_over_costs a =
     (feasible BIM_with_revenues_over_costs a \<and>
      (\<forall>b. feasible BIM_with_revenues_over_costs b \<longrightarrow>
           objective_value BIM_with_revenues_over_costs b \<le>
           objective_value BIM_with_revenues_over_costs a))"
  by (simp add: is_optimal_def sense_over_costs)

lemma scaled_region:
  fixes y1 y2 t :: real
  assumes "0 < t" "0 \<le> y1" "0 \<le> y2" "y1 \<le> 1000 * t" "y2 \<le> 1500 * t"
    "y1 + y2 \<le> 1750 * t" "4 * y1 + 2 * y2 \<le> 4800 * t"
  shows "BIM_region (y1 / t) (y2 / t)"
proof -
  have "y1 / t \<le> 1000" "y2 / t \<le> 1500"
    using assms by (simp_all add: pos_divide_le_eq)
  moreover have "y1 / t + y2 / t = (y1 + y2) / t" "4 * (y1 / t) + 2 * (y2 / t) = (4 * y1 + 2 * y2) / t"
    by (simp_all add: add_divide_distrib)
  moreover have "(y1 + y2) / t \<le> 1750" "(4 * y1 + 2 * y2) / t \<le> 4800"
    using assms by (simp_all add: pos_divide_le_eq)
  ultimately show ?thesis
    using assms by (simp add: BIM_region_def)
qed

lemma scaled_ratio:
  fixes y1 y2 t :: real
  assumes "0 < t" "7 / 6 * y1 + 5 / 6 * y2 + 100 * t = 1"
  shows "efficiency (y1 / t) (y2 / t) = 12 * y1 + 9 * y2"
proof -
  have "7 / 6 * (y1 / t) + 5 / 6 * (y2 / t) + 100 = (7 / 6 * y1 + 5 / 6 * y2 + 100 * t) / t"
    using assms(1) by (simp add: add_divide_distrib)
  then have den: "7 / 6 * (y1 / t) + 5 / 6 * (y2 / t) + 100 = 1 / t"
    using assms(2) by simp
  have num: "12 * (y1 / t) + 9 * (y2 / t) = (12 * y1 + 9 * y2) / t"
    by (simp add: add_divide_distrib)
  show ?thesis
    unfolding efficiency_def den num using assms(1) by simp
qed

lemma recovered_region:
  assumes "feasible BIM_with_revenues_over_costs a"
  shows "BIM_region (fst (recovered a)) (snd (recovered a))"
  using assms unfolding recovered_def feasible_over_costs
  by (simp add: scaled_region)

lemma recovered_ratio:
  assumes "feasible BIM_with_revenues_over_costs a"
  shows "objective_value BIM_with_revenues_over_costs a =
           efficiency (fst (recovered a)) (snd (recovered a))"
  using assms unfolding recovered_def feasible_over_costs objective_over_costs
  by (simp add: scaled_ratio)

lemma cost_positive:
  "BIM_region x1 x2 \<Longrightarrow> 0 < 7 / 6 * x1 + 5 / 6 * x2 + 100"
  unfolding BIM_region_def by linarith

lemma linearized_feasible:
  assumes "BIM_region x1 x2"
  shows "feasible BIM_with_revenues_over_costs (linearized x1 x2)"
proof -
  define d where "d = 7 / 6 * x1 + 5 / 6 * x2 + 100"
  have d: "0 < d"
    unfolding d_def using assms by (rule cost_positive)
  have l: "linearized x1 x2 = scaled (x1 / d) (x2 / d) (1 / d)"
    by (simp add: linearized_def d_def Let_def)
  from assms have r: "0 \<le> x1" "0 \<le> x2" "x1 \<le> 1000" "x2 \<le> 1500" "x1 + x2 \<le> 1750"
    "4 * x1 + 2 * x2 \<le> 4800"
    by (simp_all add: BIM_region_def)
  have "x1 / d + x2 / d = (x1 + x2) / d" "4 * (x1 / d) + 2 * (x2 / d) = (4 * x1 + 2 * x2) / d"
    "7 / 6 * (x1 / d) + 5 / 6 * (x2 / d) + 100 * (1 / d) = (7 / 6 * x1 + 5 / 6 * x2 + 100) / d"
    by (simp_all add: add_divide_distrib)
  moreover have "(7 / 6 * x1 + 5 / 6 * x2 + 100) / d = 1"
    using d by (simp add: d_def)
  moreover have "x1 / d \<le> 1000 / d" "x2 / d \<le> 1500 / d" "(x1 + x2) / d \<le> 1750 / d"
    "(4 * x1 + 2 * x2) / d \<le> 4800 / d"
    using r d by (simp_all add: divide_right_mono)
  ultimately show ?thesis
    unfolding l feasible_over_costs scaled_simps using r d by simp
qed

lemma linearized_recovered:
  assumes "BIM_region x1 x2"
  shows "recovered (linearized x1 x2) = (x1, x2)"
proof -
  from assms have "0 < 7 / 6 * x1 + 5 / 6 * x2 + 100"
    by (rule cost_positive)
  then show ?thesis
    by (simp add: recovered_def linearized_def Let_def scaled_simps)
qed

lemma linearized_objective:
  assumes "BIM_region x1 x2"
  shows "objective_value BIM_with_revenues_over_costs (linearized x1 x2) = efficiency x1 x2"
  using recovered_ratio [OF linearized_feasible [OF assms]]
  by (simp add: linearized_recovered [OF assms])

lemma over_costs_optimal_value:
  "optimal_value BIM_with_revenues_over_costs v =
     ((\<exists>x1 x2. BIM_region x1 x2 \<and> efficiency x1 x2 = v) \<and>
      (\<forall>x1 x2. BIM_region x1 x2 \<longrightarrow> efficiency x1 x2 \<le> v))"
proof
  assume "optimal_value BIM_with_revenues_over_costs v"
  then obtain a where f: "feasible BIM_with_revenues_over_costs a"
    and best: "\<And>b. feasible BIM_with_revenues_over_costs b \<Longrightarrow>
        objective_value BIM_with_revenues_over_costs b \<le> v"
    and v: "objective_value BIM_with_revenues_over_costs a = v"
    by (auto simp add: optimal_value_def is_optimal_over_costs)
  have "efficiency x1 x2 \<le> v" if "BIM_region x1 x2" for x1 x2
    using best [OF linearized_feasible [OF that]] by (simp add: linearized_objective [OF that])
  moreover have "BIM_region (fst (recovered a)) (snd (recovered a))"
    using f by (rule recovered_region)
  moreover have "efficiency (fst (recovered a)) (snd (recovered a)) = v"
    using recovered_ratio [OF f] v by simp
  ultimately show "(\<exists>x1 x2. BIM_region x1 x2 \<and> efficiency x1 x2 = v) \<and>
      (\<forall>x1 x2. BIM_region x1 x2 \<longrightarrow> efficiency x1 x2 \<le> v)"
    by blast
next
  assume "(\<exists>x1 x2. BIM_region x1 x2 \<and> efficiency x1 x2 = v) \<and>
      (\<forall>x1 x2. BIM_region x1 x2 \<longrightarrow> efficiency x1 x2 \<le> v)"
  then obtain x1 x2 where r: "BIM_region x1 x2" and e: "efficiency x1 x2 = v"
    and up: "\<And>u1 u2. BIM_region u1 u2 \<Longrightarrow> efficiency u1 u2 \<le> v"
    by blast
  have "is_optimal BIM_with_revenues_over_costs (linearized x1 x2)"
    unfolding is_optimal_over_costs
  proof (intro conjI allI impI)
    show "feasible BIM_with_revenues_over_costs (linearized x1 x2)"
      using r by (rule linearized_feasible)
  next
    fix b
    assume b: "feasible BIM_with_revenues_over_costs b"
    have "objective_value BIM_with_revenues_over_costs b \<le> v"
      using up [OF recovered_region [OF b]] by (simp add: recovered_ratio [OF b])
    then show "objective_value BIM_with_revenues_over_costs b \<le>
        objective_value BIM_with_revenues_over_costs (linearized x1 x2)"
      by (simp add: linearized_objective [OF r] e)
  qed
  then show "optimal_value BIM_with_revenues_over_costs v"
    unfolding optimal_value_def using linearized_objective [OF r] e by blast
qed

lemma optimal_recovered:
  assumes "is_optimal BIM_with_revenues_over_costs a" and "BIM_region x1 x2"
  shows "efficiency x1 x2 \<le> efficiency (fst (recovered a)) (snd (recovered a))"
proof -
  from assms(1) have f: "feasible BIM_with_revenues_over_costs a"
    and best: "\<And>b. feasible BIM_with_revenues_over_costs b \<Longrightarrow>
        objective_value BIM_with_revenues_over_costs b \<le>
        objective_value BIM_with_revenues_over_costs a"
    by (simp_all add: is_optimal_over_costs)
  from best [OF linearized_feasible [OF assms(2)]]
  show ?thesis
    by (simp add: linearized_objective [OF assms(2)] recovered_ratio [OF f])
qed

lemma over_costs_bound:
  assumes "feasible BIM_with_revenues_over_costs a"
  shows "objective_value BIM_with_revenues_over_costs a \<le> 1980 / 197"
  using assms unfolding feasible_over_costs objective_over_costs by linarith

lemma over_costs_optimal:
  "is_optimal BIM_with_revenues_over_costs (scaled (30 / 197) (180 / 197) (3 / 4925))"
  unfolding is_optimal_over_costs
proof (intro conjI allI impI)
  show "feasible BIM_with_revenues_over_costs (scaled (30 / 197) (180 / 197) (3 / 4925))"
    by (simp add: feasible_over_costs scaled_simps)
next
  fix b
  assume "feasible BIM_with_revenues_over_costs b"
  then show "objective_value BIM_with_revenues_over_costs b \<le>
      objective_value BIM_with_revenues_over_costs (scaled (30 / 197) (180 / 197) (3 / 4925))"
    using over_costs_bound [of b] by (simp add: objective_over_costs scaled_simps)
qed

lemma over_costs_unique:
  assumes "is_optimal BIM_with_revenues_over_costs a"
  shows "a ''y1'' = 250 * a ''t'' \<and> a ''y2'' = 1500 * a ''t'' \<and> 0 < a ''t'' \<and>
         12 * a ''y1'' + 9 * a ''y2'' = 1980 / 197 \<and>
         7 / 6 * a ''y1'' + 5 / 6 * a ''y2'' + 100 * a ''t'' = 1"
proof -
  from assms have f: "feasible BIM_with_revenues_over_costs a"
    and best: "\<And>b. feasible BIM_with_revenues_over_costs b \<Longrightarrow>
        objective_value BIM_with_revenues_over_costs b \<le>
        objective_value BIM_with_revenues_over_costs a"
    by (simp_all add: is_optimal_over_costs)
  have "feasible BIM_with_revenues_over_costs (scaled (30 / 197) (180 / 197) (3 / 4925))"
    using over_costs_optimal by (simp add: is_optimal_over_costs)
  from best [OF this] have "1980 / 197 \<le> 12 * a ''y1'' + 9 * a ''y2''"
    by (simp add: objective_over_costs scaled_simps)
  with f show ?thesis
    unfolding feasible_over_costs by linarith
qed

subsection \<open>Runs of the notebooks\<close>

lemma preamble_available:
  "available SOLVER = Inr True \<Longrightarrow>
   preamble debug colab SOLVER [] =
     Inr (pip_installs colab @ SolverFactory solver # (if debug then [Available] else []))"
  by (simp add: preamble_def Let_def)



lemma solved_append: "solved (tr @ tr') = solved tr @ solved tr'"
  by (induction tr rule: solved.induct) simp_all

lemma solved_pip_installs: "solved (pip_installs colab) = []"
  by (simp add: pip_installs_def)





lemma notebook_04_available:
  "available SOLVER = Inr True \<Longrightarrow>
   trace (notebook_04 debug colab SOLVER) =
     pip_installs colab @ SolverFactory solver # (if debug then [Available] else []) @
     [Solve (BIM_maxmin price_scenarios),
      Print [solve SOLVER (BIM_maxmin price_scenarios) ''x1'',
             solve SOLVER (BIM_maxmin price_scenarios) ''x2''],
      Print [solve SOLVER (BIM_maxmin price_scenarios) ''z'']]"
  by (simp add: notebook_04_def and_then_def preamble_available maxmin_cell_def Let_def
      trace_def objective_maxmin)

lemma BIM_fractional_cell_trace:
  "\<exists>post. trace (BIM_fractional_cell SOLVER tr) =
      tr @ Solve BIM_with_revenues_over_costs # post \<and> solved post = []"
  by (cases "BIM_fractional_report (solve SOLVER BIM_with_revenues_over_costs)")
    (simp_all add: BIM_fractional_cell_def Let_def trace_def)

lemma notebook_05_available:
  assumes "available SOLVER = Inr True"
  shows "\<exists>post. trace (notebook_05 debug colab SOLVER) =
     pip_installs colab @ SolverFactory solver # (if debug then [Available] else []) @
     [Solve BIM_with_revenues_minus_costs,
      Print (BIM_linear_report (solve SOLVER BIM_with_revenues_minus_costs)),
      Solve BIM_with_revenues_over_costs] @ post \<and> solved post = []"
proof -
  define tr where "tr =
     pip_installs colab @ SolverFactory solver # (if debug then [Available] else []) @
     [Solve BIM_with_revenues_minus_costs,
      Print (BIM_linear_report (solve SOLVER BIM_with_revenues_minus_costs))]"
  have "notebook_05 debug colab SOLVER = BIM_fractional_cell SOLVER tr"
    using assms
    by (simp add: notebook_05_def and_then_def preamble_available BIM_linear_cell_def Let_def
        tr_def)
  moreover obtain post where "trace (BIM_fractional_cell SOLVER tr) =
      tr @ Solve BIM_with_revenues_over_costs # post" and "solved post = []"
    using BIM_fractional_cell_trace by blast
  ultimately show ?thesis
    by (auto simp add: tr_def)
qed

lemma solved_notebook_04:
  "available SOLVER = Inr True \<Longrightarrow>
   solved (trace (notebook_04 debug colab SOLVER)) = [BIM_maxmin price_scenarios]"
  by (simp add: notebook_04_available solved_append solved_pip_installs)

lemma solved_notebook_05:
  assumes "available SOLVER = Inr True"
  shows "solved (trace (notebook_05 debug colab SOLVER)) =
     [BIM_with_revenues_minus_costs, BIM_with_revenues_over_costs]"
proof -
  obtain post where "trace (notebook_05 debug colab SOLVER) =
     pip_installs colab @ SolverFactory solver # (if debug then [Available] else []) @
     [Solve BIM_with_revenues_minus_costs,
      Print (BIM_linear_report (solve SOLVER BIM_with_revenues_minus_costs)),
      Solve BIM_with_revenues_over_costs] @ post" and "solved post = []"
    using notebook_05_available [OF assms] by blast
  then show ?thesis
    by (simp add: solved_append solved_pip_installs)
qed

text \<open>
  Where \<^verbatim>\<open>assert\<close> statements are not executed the test is skipped, and a solver whose
  test would have failed is handed the model all the same.
\<close>

lemma unchecked_without_assert:
  "notebook_04 False colab SOLVER =
     Inr (pip_installs colab @
          [SolverFactory solver, Solve (BIM_maxmin price_scenarios),
           Print [solve SOLVER (BIM_maxmin price_scenarios) ''x1'',
                  solve SOLVER (BIM_maxmin price_scenarios) ''x2''],
           Print [solve SOLVER (BIM_maxmin price_scenarios) ''z'']])"
  by (simp add: notebook_04_def and_then_def preamble_def maxmin_cell_def Let_def
      objective_maxmin)

section \<open>The worked examples\<close>

text \<open>
  C1. In the model of \<^verbatim>\<open>BIM_with_revenues_minus_costs\<close> the point (650, 1100) is feasible,
  its objective value is 15925, and no feasible point has a larger objective value.
\<close>

theorem minus_costs_optimum:
  "feasible BIM_with_revenues_minus_costs (point2 650 1100) \<and>
   objective_value BIM_with_revenues_minus_costs (point2 650 1100) = 15925 \<and>
   (\<forall>b. feasible BIM_with_revenues_minus_costs b \<longrightarrow>
        objective_value BIM_with_revenues_minus_costs b \<le> 15925)"
proof (intro conjI allI impI)
  show "feasible BIM_with_revenues_minus_costs (point2 650 1100)"
    by (simp add: feasible_minus_costs point2_simps)
  show "objective_value BIM_with_revenues_minus_costs (point2 650 1100) = 15925"
    by (simp add: objective_minus_costs point2_simps)
next
  fix b
  assume "feasible BIM_with_revenues_minus_costs b"
  then have "b ''x1'' + b ''x2'' \<le> 1750 \<and> 4 * b ''x1'' + 2 * b ''x2'' \<le> 4800"
    by (simp add: feasible_minus_costs)
  then show "objective_value BIM_with_revenues_minus_costs b \<le> 15925"
    unfolding objective_minus_costs by linarith
qed

theorem minus_costs_optimum_witness:
  "feasible BIM_with_revenues_minus_costs (point2 1000 400) \<and>
   objective_value BIM_with_revenues_minus_costs (point2 1000 400) = 14000 \<and>
   objective_value BIM_with_revenues_minus_costs (point2 1000 400) \<le> 15925"
proof -
  have f: "feasible BIM_with_revenues_minus_costs (point2 1000 400)"
    by (simp add: feasible_minus_costs point2_simps)
  have v: "objective_value BIM_with_revenues_minus_costs (point2 1000 400) = 14000"
    by (simp add: objective_minus_costs point2_simps)
  from minus_costs_optimum f
  have "objective_value BIM_with_revenues_minus_costs (point2 1000 400) \<le> 15925"
    by blast
  with f v show ?thesis by simp
qed

text \<open>
  C2. In the model of \<^verbatim>\<open>BIM_with_revenues_over_costs\<close> the assignment
  \<^verbatim>\<open>y1 = 30/197\<close>, \<^verbatim>\<open>y2 = 180/197\<close>, \<^verbatim>\<open>t = 3/4925\<close> is optimal. Every optimal assignment
  is recovered by division by \<^verbatim>\<open>t\<close> as (250, 1500), has objective value 1980/197, which
  is the efficiency ratio at (250, 1500), that is 16500 over 4925/3 and 10.051 to three
  decimals, and makes the cell print these values with revenue 16500 and cost 4925/3.
\<close>

theorem over_costs_optimum:
  "is_optimal BIM_with_revenues_over_costs (scaled (30 / 197) (180 / 197) (3 / 4925)) \<and>
   (\<forall>a. is_optimal BIM_with_revenues_over_costs a \<longrightarrow>
        recovered a = (250, 1500) \<and>
        objective_value BIM_with_revenues_over_costs a = 1980 / 197 \<and>
        BIM_fractional_report a = Inr [250, 1500, 1980 / 197, 16500, 4925 / 3]) \<and>
   efficiency 250 1500 = 1980 / 197 \<and>
   (16500 :: real) / (4925 / 3) = 1980 / 197 \<and>
   \<bar>1980 / 197 - 10.051 :: real\<bar> < 0.0005"
proof (intro conjI allI impI)
  show "is_optimal BIM_with_revenues_over_costs (scaled (30 / 197) (180 / 197) (3 / 4925))"
    by (rule over_costs_optimal)
  show "efficiency 250 1500 = 1980 / 197"
    by (simp add: efficiency_def)
  show "(16500 :: real) / (4925 / 3) = 1980 / 197" by simp
  show "\<bar>1980 / 197 - 10.051 :: real\<bar> < 0.0005" by simp
next
  fix a
  assume "is_optimal BIM_with_revenues_over_costs a"
  from over_costs_unique [OF this]
  have y1: "a ''y1'' = 250 * a ''t''" and y2: "a ''y2'' = 1500 * a ''t''" and t: "0 < a ''t''"
    and v: "12 * a ''y1'' + 9 * a ''y2'' = 1980 / 197"
    and n: "7 / 6 * a ''y1'' + 5 / 6 * a ''y2'' + 100 * a ''t'' = 1"
    by simp_all
  show r: "recovered a = (250, 1500)"
    using t by (simp add: recovered_def y1 y2)
  show o: "objective_value BIM_with_revenues_over_costs a = 1980 / 197"
    using v by (simp add: objective_over_costs)
  have rev: "pyo_value a (revenue ''y1'' ''y2'') / a ''t'' = 16500"
    using t by (simp add: revenue_def y1 y2)
  have vc: "pyo_value a (variable_cost ''y1'' ''y2'') = 7 / 6 * a ''y1'' + 5 / 6 * a ''y2''"
    by (simp add: variable_cost_def)
  have den: "pyo_value a (variable_cost ''y1'' ''y2'') + fixed_cost * a ''t'' = 1"
    using n by (simp add: vc fixed_cost_def)
  have cost: "pyo_value a (variable_cost ''y1'' ''y2'') / a ''t'' + fixed_cost = 4925 / 3"
    using t by (simp add: vc fixed_cost_def y1 y2)
  show "BIM_fractional_report a = Inr [250, 1500, 1980 / 197, 16500, 4925 / 3]"
    using t by (simp add: BIM_fractional_report_def Let_def den r o rev cost)
qed

theorem over_costs_optimum_witness:
  "is_optimal BIM_with_revenues_over_costs (scaled (60 / 394) (360 / 394) (6 / 9850)) \<and>
   recovered (scaled (60 / 394) (360 / 394) (6 / 9850)) = (250, 1500) \<and>
   objective_value BIM_with_revenues_over_costs (scaled (60 / 394) (360 / 394) (6 / 9850)) =
     1980 / 197 \<and>
   BIM_fractional_report (scaled (60 / 394) (360 / 394) (6 / 9850)) =
     Inr [250, 1500, 1980 / 197, 16500, 4925 / 3]"
proof -
  have "scaled (60 / 394) (360 / 394) (6 / 9850) = scaled (30 / 197) (180 / 197) (3 / 4925)"
    by simp
  then have "is_optimal BIM_with_revenues_over_costs (scaled (60 / 394) (360 / 394) (6 / 9850))"
    using over_costs_optimal by simp
  with over_costs_optimum show ?thesis by blast
qed

text \<open>
  C3. In the model of \<^verbatim>\<open>BIM_maxmin([[12, 9], [11, 10], [8, 11]])\<close> the point
  (1750/3, 3500/3) with \<^verbatim>\<open>z\<close> = 17500 is optimal, every optimal assignment has these
  values, the objective value 17500 is the worst revenue over the three price pairs at
  that point, and the point rounds to (583.3, 1166.7).
\<close>

theorem maxmin_optimum:
  "is_optimal (BIM_maxmin price_scenarios) (point3 (1750 / 3) (3500 / 3) 17500) \<and>
   objective_value (BIM_maxmin price_scenarios) (point3 (1750 / 3) (3500 / 3) 17500) = 17500 \<and>
   worst_case price_scenarios (1750 / 3) (3500 / 3) = 17500 \<and>
   (\<forall>a. is_optimal (BIM_maxmin price_scenarios) a \<longrightarrow>
        a ''x1'' = 1750 / 3 \<and> a ''x2'' = 3500 / 3 \<and>
        objective_value (BIM_maxmin price_scenarios) a = 17500) \<and>
   \<bar>1750 / 3 - 583.3 :: real\<bar> < 0.05 \<and> \<bar>3500 / 3 - 1166.7 :: real\<bar> < 0.05"
proof (intro conjI allI impI)
  show "is_optimal (BIM_maxmin price_scenarios) (point3 (1750 / 3) (3500 / 3) 17500)"
    by (rule price_scenarios_optimal)
  show "objective_value (BIM_maxmin price_scenarios) (point3 (1750 / 3) (3500 / 3) 17500) = 17500"
    by (simp add: objective_maxmin point3_simps)
  show "worst_case price_scenarios (1750 / 3) (3500 / 3) = 17500"
    by (simp add: worst_case_def price_scenarios_def)
  show "\<bar>1750 / 3 - 583.3 :: real\<bar> < 0.05" by simp
  show "\<bar>3500 / 3 - 1166.7 :: real\<bar> < 0.05" by simp
next
  fix a
  assume "is_optimal (BIM_maxmin price_scenarios) a"
  from price_scenarios_unique [OF this]
  show "a ''x1'' = 1750 / 3" "a ''x2'' = 3500 / 3"
    "objective_value (BIM_maxmin price_scenarios) a = 17500"
    by (simp_all add: objective_maxmin)
qed

theorem maxmin_optimum_witness:
  "is_optimal (BIM_maxmin price_scenarios) ((point3 (1750 / 3) (3500 / 3) 17500)(''w'' := 1)) \<and>
   ((point3 (1750 / 3) (3500 / 3) 17500)(''w'' := 1)) ''x1'' = 1750 / 3 \<and>
   ((point3 (1750 / 3) (3500 / 3) 17500)(''w'' := 1)) ''x2'' = 3500 / 3 \<and>
   objective_value (BIM_maxmin price_scenarios)
     ((point3 (1750 / 3) (3500 / 3) 17500)(''w'' := 1)) = 17500"
proof -
  have "is_optimal (BIM_maxmin price_scenarios) ((point3 (1750 / 3) (3500 / 3) 17500)(''w'' := 1))"
    unfolding is_optimal_maxmin
  proof (intro conjI allI impI)
    show "feasible (BIM_maxmin price_scenarios) ((point3 (1750 / 3) (3500 / 3) 17500)(''w'' := 1))"
      by (simp add: feasible_price_scenarios BIM_region_def point3_simps)
  next
    fix b
    assume "feasible (BIM_maxmin price_scenarios) b"
    then show "b ''z'' \<le> ((point3 (1750 / 3) (3500 / 3) 17500)(''w'' := 1)) ''z''"
      by (simp add: point3_simps price_scenarios_bound)
  qed
  with maxmin_optimum show ?thesis by blast
qed

section \<open>The maximin linearization\<close>

text \<open>
  C4. For a nonempty list of price pairs, the model of \<^verbatim>\<open>BIM_maxmin\<close> has one row
  \<^verbatim>\<open>z <= c1 * x1 + c2 * x2\<close> per pair, in order. An assignment is feasible exactly when
  its point lies in the production region and its \<^verbatim>\<open>z\<close> is at most the worst revenue
  there; so at each point of the region the feasible values of \<^verbatim>\<open>z\<close> have the worst
  revenue as their greatest element and supremum, and a number is the optimal value of the
  model exactly when it is the greatest worst revenue over the region.
\<close>

theorem maxmin_linearization:
  assumes "costs \<noteq> []"
  shows
   "map snd (filter (\<lambda>(n, c). n = ''maxmin'') (constraints (BIM_maxmin costs))) =
      map (\<lambda>(c1, c2). Le (Var ''z'') (Add (Mul (Num c1) (Var ''x1'')) (Mul (Num c2) (Var ''x2''))))
        costs \<and>
    (\<forall>a. feasible (BIM_maxmin costs) a =
        (BIM_region (a ''x1'') (a ''x2'') \<and> a ''z'' \<le> worst_case costs (a ''x1'') (a ''x2''))) \<and>
    (\<forall>x1 x2. BIM_region x1 x2 \<longrightarrow>
        feasible (BIM_maxmin costs) (point3 x1 x2 (worst_case costs x1 x2)) \<and>
        objective_value (BIM_maxmin costs) (point3 x1 x2 (worst_case costs x1 x2)) =
          worst_case costs x1 x2 \<and>
        (\<forall>z. feasible (BIM_maxmin costs) (point3 x1 x2 z) \<longrightarrow> z \<le> worst_case costs x1 x2) \<and>
        Sup {objective_value (BIM_maxmin costs) (point3 x1 x2 z) | z.
               feasible (BIM_maxmin costs) (point3 x1 x2 z)} = worst_case costs x1 x2) \<and>
    (\<forall>v. optimal_value (BIM_maxmin costs) v =
        ((\<exists>x1 x2. BIM_region x1 x2 \<and> worst_case costs x1 x2 = v) \<and>
         (\<forall>x1 x2. BIM_region x1 x2 \<longrightarrow> worst_case costs x1 x2 \<le> v)))"
proof (intro conjI allI impI)
  show "map snd (filter (\<lambda>(n, c). n = ''maxmin'') (constraints (BIM_maxmin costs))) =
      map (\<lambda>(c1, c2). Le (Var ''z'') (Add (Mul (Num c1) (Var ''x1'')) (Mul (Num c2) (Var ''x2''))))
        costs"
    by (rule maxmin_rows)
next
  fix a
  show "feasible (BIM_maxmin costs) a =
        (BIM_region (a ''x1'') (a ''x2'') \<and> a ''z'' \<le> worst_case costs (a ''x1'') (a ''x2''))"
    using assms by (rule feasible_maxmin_worst)
next
  fix x1 x2
  assume r: "BIM_region x1 x2"
  show "feasible (BIM_maxmin costs) (point3 x1 x2 (worst_case costs x1 x2))"
    using assms r by (simp add: feasible_maxmin_worst point3_simps)
  show "objective_value (BIM_maxmin costs) (point3 x1 x2 (worst_case costs x1 x2)) =
          worst_case costs x1 x2"
    by (simp add: objective_maxmin point3_simps)
  show "Sup {objective_value (BIM_maxmin costs) (point3 x1 x2 z) | z.
               feasible (BIM_maxmin costs) (point3 x1 x2 z)} = worst_case costs x1 x2"
    using assms r by (rule maxmin_sup)
  fix z
  assume "feasible (BIM_maxmin costs) (point3 x1 x2 z)"
  then show "z \<le> worst_case costs x1 x2"
    using assms by (simp add: feasible_maxmin_worst point3_simps)
next
  fix v
  show "optimal_value (BIM_maxmin costs) v =
        ((\<exists>x1 x2. BIM_region x1 x2 \<and> worst_case costs x1 x2 = v) \<and>
         (\<forall>x1 x2. BIM_region x1 x2 \<longrightarrow> worst_case costs x1 x2 \<le> v))"
    using assms by (rule maxmin_optimal_value)
qed

theorem maxmin_linearization_witness:
  "price_scenarios \<noteq> [] \<and>
   length (filter (\<lambda>(n, c). n = ''maxmin'') (constraints (BIM_maxmin price_scenarios))) = 3 \<and>
   BIM_region 650 1100 \<and>
   worst_case price_scenarios 650 1100 = 17300 \<and>
   feasible (BIM_maxmin price_scenarios) (point3 650 1100 17300) \<and>
   \<not> feasible (BIM_maxmin price_scenarios) (point3 650 1100 17301) \<and>
   Sup {objective_value (BIM_maxmin price_scenarios) (point3 650 1100 z) | z.
          feasible (BIM_maxmin price_scenarios) (point3 650 1100 z)} = 17300 \<and>
   optimal_value (BIM_maxmin price_scenarios) 17500 \<and>
   (\<exists>x1 x2. BIM_region x1 x2 \<and> worst_case price_scenarios x1 x2 = 17500)"
proof -
  have ne: "price_scenarios \<noteq> []"
    by (simp add: price_scenarios_def)
  have r: "BIM_region 650 1100"
    by (simp add: BIM_region_def)
  have w: "worst_case price_scenarios 650 1100 = 17300"
    by (simp add: worst_case_def price_scenarios_def)
  have n: "\<not> feasible (BIM_maxmin price_scenarios) (point3 650 1100 17301)"
    by (simp add: feasible_price_scenarios point3_simps)
  have o: "optimal_value (BIM_maxmin price_scenarios) 17500"
    unfolding optimal_value_def
    using price_scenarios_optimal by (auto simp add: objective_maxmin point3_simps)
  note l = maxmin_linearization [OF ne]
  from l have "length (map snd (filter (\<lambda>(n, c). n = ''maxmin'')
        (constraints (BIM_maxmin price_scenarios)))) = length price_scenarios"
    by simp
  then have len: "length (filter (\<lambda>(n, c). n = ''maxmin'')
        (constraints (BIM_maxmin price_scenarios))) = 3"
    by (simp add: price_scenarios_def)
  from l r have at: "feasible (BIM_maxmin price_scenarios)
        (point3 650 1100 (worst_case price_scenarios 650 1100)) \<and>
      Sup {objective_value (BIM_maxmin price_scenarios) (point3 650 1100 z) | z.
          feasible (BIM_maxmin price_scenarios) (point3 650 1100 z)} =
        worst_case price_scenarios 650 1100"
    by blast
  from l o have ex: "\<exists>x1 x2. BIM_region x1 x2 \<and> worst_case price_scenarios x1 x2 = 17500"
    by blast
  from ne len r w n o at ex show ?thesis
    by simp
qed

section \<open>The fractional linearization\<close>

text \<open>
  C5. Every feasible assignment of the model of \<^verbatim>\<open>BIM_with_revenues_over_costs\<close> has
  \<^verbatim>\<open>t > 0\<close> and cost normalised to 1; the point recovered by division by \<^verbatim>\<open>t\<close> lies in
  the production region and the objective equals the efficiency ratio there. Conversely
  every point of the region is recovered from a feasible assignment whose objective is the
  ratio at that point. So a number is the optimal value of the model exactly when it is
  the greatest ratio over the region, and the point recovered from an optimal assignment
  maximises the ratio over the region.
\<close>

theorem fractional_linearization:
  "(\<forall>a. feasible BIM_with_revenues_over_costs a \<longrightarrow>
        0 < a ''t'' \<and>
        7 / 6 * a ''y1'' + 5 / 6 * a ''y2'' + 100 * a ''t'' = 1 \<and>
        BIM_region (fst (recovered a)) (snd (recovered a)) \<and>
        objective_value BIM_with_revenues_over_costs a =
          efficiency (fst (recovered a)) (snd (recovered a))) \<and>
   (\<forall>x1 x2. BIM_region x1 x2 \<longrightarrow>
        (\<exists>a. feasible BIM_with_revenues_over_costs a \<and> recovered a = (x1, x2) \<and>
             objective_value BIM_with_revenues_over_costs a = efficiency x1 x2)) \<and>
   (\<forall>v. optimal_value BIM_with_revenues_over_costs v =
        ((\<exists>x1 x2. BIM_region x1 x2 \<and> efficiency x1 x2 = v) \<and>
         (\<forall>x1 x2. BIM_region x1 x2 \<longrightarrow> efficiency x1 x2 \<le> v))) \<and>
   (\<forall>a. is_optimal BIM_with_revenues_over_costs a \<longrightarrow>
        BIM_region (fst (recovered a)) (snd (recovered a)) \<and>
        (\<forall>x1 x2. BIM_region x1 x2 \<longrightarrow>
             efficiency x1 x2 \<le> efficiency (fst (recovered a)) (snd (recovered a))))"
proof (intro conjI allI impI)
  fix a
  assume f: "feasible BIM_with_revenues_over_costs a"
  then show "0 < a ''t''" "7 / 6 * a ''y1'' + 5 / 6 * a ''y2'' + 100 * a ''t'' = 1"
    by (simp_all add: feasible_over_costs)
  from f show "BIM_region (fst (recovered a)) (snd (recovered a))"
    by (rule recovered_region)
  from f show "objective_value BIM_with_revenues_over_costs a =
          efficiency (fst (recovered a)) (snd (recovered a))"
    by (rule recovered_ratio)
next
  fix x1 x2
  assume "BIM_region x1 x2"
  then have "feasible BIM_with_revenues_over_costs (linearized x1 x2) \<and>
      recovered (linearized x1 x2) = (x1, x2) \<and>
      objective_value BIM_with_revenues_over_costs (linearized x1 x2) = efficiency x1 x2"
    by (simp add: linearized_feasible linearized_recovered linearized_objective)
  then show "\<exists>a. feasible BIM_with_revenues_over_costs a \<and> recovered a = (x1, x2) \<and>
             objective_value BIM_with_revenues_over_costs a = efficiency x1 x2"
    by blast
next
  fix v
  show "optimal_value BIM_with_revenues_over_costs v =
        ((\<exists>x1 x2. BIM_region x1 x2 \<and> efficiency x1 x2 = v) \<and>
         (\<forall>x1 x2. BIM_region x1 x2 \<longrightarrow> efficiency x1 x2 \<le> v))"
    by (rule over_costs_optimal_value)
next
  fix a
  assume o: "is_optimal BIM_with_revenues_over_costs a"
  then show "BIM_region (fst (recovered a)) (snd (recovered a))"
    by (simp add: is_optimal_over_costs recovered_region)
  fix x1 x2
  assume "BIM_region x1 x2"
  with o show "efficiency x1 x2 \<le> efficiency (fst (recovered a)) (snd (recovered a))"
    by (rule optimal_recovered)
qed

theorem fractional_linearization_witness:
  "feasible BIM_with_revenues_over_costs (scaled (1 / 3) (1 / 3) (1 / 300)) \<and>
   BIM_region 100 100 \<and>
   recovered (scaled (1 / 3) (1 / 3) (1 / 300)) = (100, 100) \<and>
   objective_value BIM_with_revenues_over_costs (scaled (1 / 3) (1 / 3) (1 / 300)) = 7 \<and>
   efficiency 100 100 = 7 \<and>
   BIM_region 650 1100 \<and>
   (\<exists>a. feasible BIM_with_revenues_over_costs a \<and> recovered a = (650, 1100) \<and>
        objective_value BIM_with_revenues_over_costs a = efficiency 650 1100) \<and>
   optimal_value BIM_with_revenues_over_costs (1980 / 197) \<and>
   (\<exists>x1 x2. BIM_region x1 x2 \<and> efficiency x1 x2 = 1980 / 197) \<and>
   efficiency 650 1100 \<le> 1980 / 197 \<and>
   is_optimal BIM_with_revenues_over_costs (scaled (30 / 197) (180 / 197) (3 / 4925)) \<and>
   efficiency 650 1100 \<le> efficiency 250 1500"
proof -
  note l = fractional_linearization
  have f: "feasible BIM_with_revenues_over_costs (scaled (1 / 3) (1 / 3) (1 / 300))"
    by (simp add: feasible_over_costs scaled_simps)
  have rc: "recovered (scaled (1 / 3) (1 / 3) (1 / 300)) = (100, 100)"
    by (simp add: recovered_def scaled_simps)
  have ov: "objective_value BIM_with_revenues_over_costs (scaled (1 / 3) (1 / 3) (1 / 300)) = 7"
    by (simp add: objective_over_costs scaled_simps)
  from l f have "BIM_region (fst (recovered (scaled (1 / 3) (1 / 3) (1 / 300))))
        (snd (recovered (scaled (1 / 3) (1 / 3) (1 / 300)))) \<and>
      objective_value BIM_with_revenues_over_costs (scaled (1 / 3) (1 / 3) (1 / 300)) =
        efficiency (fst (recovered (scaled (1 / 3) (1 / 3) (1 / 300))))
          (snd (recovered (scaled (1 / 3) (1 / 3) (1 / 300))))"
    by blast
  then have a: "BIM_region 100 100 \<and> efficiency 100 100 = 7"
    by (simp add: rc ov)
  have r: "BIM_region 650 1100"
    by (simp add: BIM_region_def)
  from l r have b: "\<exists>a. feasible BIM_with_revenues_over_costs a \<and> recovered a = (650, 1100) \<and>
        objective_value BIM_with_revenues_over_costs a = efficiency 650 1100"
    by blast
  have o: "is_optimal BIM_with_revenues_over_costs (scaled (30 / 197) (180 / 197) (3 / 4925))"
    by (rule over_costs_optimal)
  then have opt: "optimal_value BIM_with_revenues_over_costs (1980 / 197)"
    unfolding optimal_value_def
    by (auto simp add: objective_over_costs scaled_simps intro!: exI [of _ "scaled (30 / 197) (180 / 197) (3 / 4925)"])
  from l opt have c: "(\<exists>x1 x2. BIM_region x1 x2 \<and> efficiency x1 x2 = 1980 / 197) \<and>
      (\<forall>x1 x2. BIM_region x1 x2 \<longrightarrow> efficiency x1 x2 \<le> 1980 / 197)"
    by blast
  with r have d: "efficiency 650 1100 \<le> 1980 / 197"
    by blast
  have rc2: "recovered (scaled (30 / 197) (180 / 197) (3 / 4925)) = (250, 1500)"
    by (simp add: recovered_def scaled_simps)
  from l o r have "efficiency 650 1100 \<le>
      efficiency (fst (recovered (scaled (30 / 197) (180 / 197) (3 / 4925))))
        (snd (recovered (scaled (30 / 197) (180 / 197) (3 / 4925))))"
    by blast
  then have e: "efficiency 650 1100 \<le> efficiency 250 1500"
    by (simp add: rc2)
  from f rc ov a r b opt c d o e show ?thesis
    by simp
qed

section \<open>Edge cases and monotonicity of the scenario list\<close>

text \<open>
  C9. For the empty list of price pairs the model of \<^verbatim>\<open>BIM_maxmin\<close> has only the four
  resource rows, none of which mentions \<^verbatim>\<open>z\<close>, and its objective is unbounded above:
  whatever the number M, some feasible assignment has an objective value above M.
\<close>

theorem maxmin_empty_unbounded:
  "constraints (BIM_maxmin []) = [silicon, germanium, plastic, copper] \<and>
   (\<forall>(n, c) \<in> set (constraints (BIM_maxmin [])). ''z'' \<notin> relation_vars c) \<and>
   (\<forall>M. \<exists>a. feasible (BIM_maxmin []) a \<and> M < objective_value (BIM_maxmin []) a)"
proof (intro conjI allI)
  show "constraints (BIM_maxmin []) = [silicon, germanium, plastic, copper]"
    by (simp add: BIM_maxmin_def)
  show "\<forall>(n, c) \<in> set (constraints (BIM_maxmin [])). ''z'' \<notin> relation_vars c"
    by (simp add: BIM_maxmin_def silicon_def germanium_def plastic_def copper_def)
next
  fix M :: real
  have "feasible (BIM_maxmin []) (point3 0 0 (M + 1))"
    by (simp add: feasible_maxmin BIM_region_def point3_simps)
  moreover have "M < objective_value (BIM_maxmin []) (point3 0 0 (M + 1))"
    by (simp add: objective_maxmin point3_simps)
  ultimately show "\<exists>a. feasible (BIM_maxmin []) a \<and> M < objective_value (BIM_maxmin []) a"
    by blast
qed

theorem maxmin_empty_unbounded_witness:
  "''z'' \<notin> relation_vars (snd copper) \<and>
   (\<exists>a. feasible (BIM_maxmin []) a \<and> 1000000 < objective_value (BIM_maxmin []) a)"
proof -
  have "copper \<in> set (constraints (BIM_maxmin []))"
    by (simp add: BIM_maxmin_def)
  with maxmin_empty_unbounded have "''z'' \<notin> relation_vars (snd copper)"
    by (auto simp add: case_prod_beta)
  moreover from maxmin_empty_unbounded
  have "\<exists>a. feasible (BIM_maxmin []) a \<and> 1000000 < objective_value (BIM_maxmin []) a"
    by blast
  ultimately show ?thesis by simp
qed

text \<open>
  C10. Adding a price pair at the end of the list cannot raise the optimum of
  \<^verbatim>\<open>BIM_maxmin\<close>: every assignment feasible for \<^verbatim>\<open>costs + [c]\<close> is feasible for
  \<^verbatim>\<open>costs\<close> with the same objective value, so every upper bound on the objective of the
  shorter list bounds the longer one, and where both models have an optimal value the one
  of the longer list is the smaller or equal.
\<close>

theorem maxmin_monotone:
  "(\<forall>a. feasible (BIM_maxmin (costs @ [c])) a \<longrightarrow>
        feasible (BIM_maxmin costs) a \<and>
        objective_value (BIM_maxmin (costs @ [c])) a = objective_value (BIM_maxmin costs) a) \<and>
   (\<forall>B. (\<forall>a. feasible (BIM_maxmin costs) a \<longrightarrow> objective_value (BIM_maxmin costs) a \<le> B) \<longrightarrow>
        (\<forall>a. feasible (BIM_maxmin (costs @ [c])) a \<longrightarrow>
             objective_value (BIM_maxmin (costs @ [c])) a \<le> B)) \<and>
   (\<forall>v v'. optimal_value (BIM_maxmin costs) v \<and> optimal_value (BIM_maxmin (costs @ [c])) v' \<longrightarrow>
        v' \<le> v)"
proof (intro conjI allI impI)
  fix a
  assume "feasible (BIM_maxmin (costs @ [c])) a"
  then show "feasible (BIM_maxmin costs) a"
    by (rule feasible_maxmin_append)
  show "objective_value (BIM_maxmin (costs @ [c])) a = objective_value (BIM_maxmin costs) a"
    by (simp add: objective_maxmin)
next
  fix B a
  assume "\<forall>a. feasible (BIM_maxmin costs) a \<longrightarrow> objective_value (BIM_maxmin costs) a \<le> B"
    and "feasible (BIM_maxmin (costs @ [c])) a"
  then show "objective_value (BIM_maxmin (costs @ [c])) a \<le> B"
    using feasible_maxmin_append [of costs c a] by (simp add: objective_maxmin)
next
  fix v v'
  assume "optimal_value (BIM_maxmin costs) v \<and> optimal_value (BIM_maxmin (costs @ [c])) v'"
  then obtain a b where a: "is_optimal (BIM_maxmin costs) a" "a ''z'' = v"
    and b: "is_optimal (BIM_maxmin (costs @ [c])) b" "b ''z'' = v'"
    by (auto simp add: optimal_value_def objective_maxmin)
  from b have "feasible (BIM_maxmin (costs @ [c])) b"
    by (simp add: is_optimal_maxmin)
  then have "feasible (BIM_maxmin costs) b"
    by (rule feasible_maxmin_append)
  with a have "b ''z'' \<le> a ''z''"
    by (simp add: is_optimal_maxmin)
  with a b show "v' \<le> v" by simp
qed

theorem maxmin_monotone_witness:
  "optimal_value (BIM_maxmin [(12, 9)]) 17700 \<and>
   optimal_value (BIM_maxmin ([(12, 9)] @ [(8, 11)])) 17500 \<and>
   (17500 :: real) \<le> 17700 \<and>
   feasible (BIM_maxmin ([(12, 9)] @ [(8, 11)])) (point3 (1750 / 3) (3500 / 3) 17500) \<and>
   feasible (BIM_maxmin [(12, 9)]) (point3 (1750 / 3) (3500 / 3) 17500)"
proof -
  have o1: "optimal_value (BIM_maxmin [(12, 9)]) 17700"
    unfolding optimal_value_def
    using maxmin_single_optimal by (auto simp add: objective_maxmin point3_simps)
  have o2: "optimal_value (BIM_maxmin ([(12, 9)] @ [(8, 11)])) 17500"
    unfolding optimal_value_def
    using maxmin_pair_optimal by (auto simp add: objective_maxmin point3_simps)
  have f: "feasible (BIM_maxmin ([(12, 9)] @ [(8, 11)])) (point3 (1750 / 3) (3500 / 3) 17500)"
    using maxmin_pair_optimal by (simp add: is_optimal_maxmin)
  note m = maxmin_monotone [of "[(12, 9)]" "(8, 11)"]
  from m o1 o2 have le: "(17500 :: real) \<le> 17700"
    by blast
  from m f have "feasible (BIM_maxmin [(12, 9)]) (point3 (1750 / 3) (3500 / 3) 17500)"
    by blast
  with o1 o2 le f show ?thesis by simp
qed

section \<open>Domains of the declared variables\<close>

text \<open>
  C6, as the code has it. In the two models of notebook 2.5 every declared variable is
  non-negative at every feasible assignment (\<^verbatim>\<open>t\<close> is even positive), and so are \<^verbatim>\<open>x1\<close>
  and \<^verbatim>\<open>x2\<close> in the model of \<^verbatim>\<open>BIM_maxmin\<close>. The auxiliary variable \<^verbatim>\<open>z\<close> of
  \<^verbatim>\<open>BIM_maxmin\<close> is declared over all the reals: for every list of price pairs the
  assignment \<^verbatim>\<open>x1 = x2 = 0\<close>, \<^verbatim>\<open>z = -1\<close> is feasible.
\<close>

theorem declared_domains:
  "(\<forall>a. feasible BIM_with_revenues_minus_costs a \<longrightarrow>
        (\<forall>(v, d) \<in> set (vars BIM_with_revenues_minus_costs). 0 \<le> a v)) \<and>
   (\<forall>a. feasible BIM_with_revenues_over_costs a \<longrightarrow>
        (\<forall>(v, d) \<in> set (vars BIM_with_revenues_over_costs). 0 \<le> a v) \<and> 0 < a ''t'') \<and>
   (\<forall>costs a. feasible (BIM_maxmin costs) a \<longrightarrow>
        (\<forall>(v, d) \<in> set (vars (BIM_maxmin costs)). v \<noteq> ''z'' \<longrightarrow> 0 \<le> a v)) \<and>
   (\<forall>costs. vars (BIM_maxmin costs) =
        [(''x1'', NonNegativeReals), (''x2'', NonNegativeReals), (''z'', Reals)] \<and>
        feasible (BIM_maxmin costs) (point3 0 0 (- 1)) \<and>
        point3 0 0 (- 1) ''z'' < 0)"
proof (intro conjI allI impI)
  fix a
  assume "feasible BIM_with_revenues_minus_costs a"
  then show "\<forall>(v, d) \<in> set (vars BIM_with_revenues_minus_costs). 0 \<le> a v"
    by (simp add: feasible_minus_costs) (simp add: BIM_with_revenues_minus_costs_def)
next
  fix a
  assume f: "feasible BIM_with_revenues_over_costs a"
  then show "\<forall>(v, d) \<in> set (vars BIM_with_revenues_over_costs). 0 \<le> a v"
    by (simp add: feasible_over_costs) (simp add: BIM_with_revenues_over_costs_def)
  from f show "0 < a ''t''"
    by (simp add: feasible_over_costs)
next
  fix costs a
  assume "feasible (BIM_maxmin costs) a"
  then show "\<forall>(v, d) \<in> set (vars (BIM_maxmin costs)). v \<noteq> ''z'' \<longrightarrow> 0 \<le> a v"
    by (simp add: feasible_maxmin BIM_region_def) (simp add: BIM_maxmin_def)
next
  fix costs :: "(real \<times> real) list"
  show "vars (BIM_maxmin costs) =
        [(''x1'', NonNegativeReals), (''x2'', NonNegativeReals), (''z'', Reals)]"
    by (simp add: BIM_maxmin_def)
  show "feasible (BIM_maxmin costs) (point3 0 0 (- 1))"
    by (simp add: feasible_maxmin BIM_region_def point3_simps)
  show "point3 0 0 (- 1) ''z'' < 0"
    by (simp add: point3_simps)
qed

theorem declared_domains_witness:
  "feasible BIM_with_revenues_minus_costs (point2 650 1100) \<and>
   0 \<le> point2 650 1100 ''x1'' \<and> 0 \<le> point2 650 1100 ''x2'' \<and>
   feasible BIM_with_revenues_over_costs (scaled (30 / 197) (180 / 197) (3 / 4925)) \<and>
   0 \<le> scaled (30 / 197) (180 / 197) (3 / 4925) ''y1'' \<and>
   0 \<le> scaled (30 / 197) (180 / 197) (3 / 4925) ''y2'' \<and>
   0 < scaled (30 / 197) (180 / 197) (3 / 4925) ''t'' \<and>
   feasible (BIM_maxmin price_scenarios) (point3 650 1100 17300) \<and>
   0 \<le> point3 650 1100 17300 ''x1'' \<and> 0 \<le> point3 650 1100 17300 ''x2'' \<and>
   feasible (BIM_maxmin price_scenarios) (point3 0 0 (- 1))"
proof -
  have f1: "feasible BIM_with_revenues_minus_costs (point2 650 1100)"
    by (simp add: feasible_minus_costs point2_simps)
  have f2: "feasible BIM_with_revenues_over_costs (scaled (30 / 197) (180 / 197) (3 / 4925))"
    by (simp add: feasible_over_costs scaled_simps)
  have f3: "feasible (BIM_maxmin price_scenarios) (point3 650 1100 17300)"
    by (simp add: feasible_price_scenarios BIM_region_def point3_simps)
  have 1: "0 \<le> point2 650 1100 ''x1'' \<and> 0 \<le> point2 650 1100 ''x2''"
    using declared_domains f1 by (fastforce simp add: BIM_with_revenues_minus_costs_def)
  have 2: "0 \<le> scaled (30 / 197) (180 / 197) (3 / 4925) ''y1'' \<and>
      0 \<le> scaled (30 / 197) (180 / 197) (3 / 4925) ''y2'' \<and>
      0 < scaled (30 / 197) (180 / 197) (3 / 4925) ''t''"
    using declared_domains f2 by (fastforce simp add: BIM_with_revenues_over_costs_def)
  have 3: "0 \<le> point3 650 1100 17300 ''x1'' \<and> 0 \<le> point3 650 1100 17300 ''x2''"
    using declared_domains f3 by (fastforce simp add: BIM_maxmin_def)
  have 4: "feasible (BIM_maxmin price_scenarios) (point3 0 0 (- 1))"
    using declared_domains by blast
  from f1 f2 f3 1 2 3 4 show ?thesis by simp
qed

text \<open>
  C6 as written fails on \<^verbatim>\<open>z\<close>: in the model of the three price pairs the
  assignment \<^verbatim>\<open>x1 = x2 = 0\<close>, \<^verbatim>\<open>z = -1\<close> is feasible, and \<^verbatim>\<open>z\<close> is a declared variable.
\<close>

theorem maxmin_z_negative:
  "feasible (BIM_maxmin price_scenarios) (point3 0 0 (- 1)) \<and>
   (''z'', Reals) \<in> set (vars (BIM_maxmin price_scenarios)) \<and>
   point3 0 0 (- 1) ''z'' < 0"
  by (simp add: feasible_price_scenarios BIM_region_def point3_simps) (simp add: BIM_maxmin_def)

section \<open>The notebooks as runs\<close>




text \<open>
  C8, as the code has it. With the solver available, notebook 2.4 builds and solves one
  linear program, the model of \<^verbatim>\<open>BIM_maxmin\<close> at the three price pairs, and notebook 2.5
  builds and solves two, the model of revenues minus costs and then the model of
  revenues over costs.
\<close>

theorem programs_solved:
  "available SOLVER = Inr True \<longrightarrow>
     solved (trace (notebook_04 debug colab SOLVER)) = [BIM_maxmin price_scenarios] \<and>
     length (solved (trace (notebook_04 debug colab SOLVER))) = 1 \<and>
     solved (trace (notebook_05 debug colab SOLVER)) =
       [BIM_with_revenues_minus_costs, BIM_with_revenues_over_costs] \<and>
     length (solved (trace (notebook_05 debug colab SOLVER))) = 2"
  by (simp add: solved_notebook_04 solved_notebook_05)

theorem programs_solved_witness:
  "available (stub_solver (Inr True) reported) = Inr True \<and>
   length (solved (trace (notebook_04 True False (stub_solver (Inr True) reported)))) = 1 \<and>
   length (solved (trace (notebook_05 True False (stub_solver (Inr True) reported)))) = 2 \<and>
   notebook_05 True False (stub_solver (Inr True) reported) =
     Inr [SolverFactory ''appsi_highs'', Available,
          Solve BIM_with_revenues_minus_costs, Print [650, 1100, 15925, 17700, 1775],
          Solve BIM_with_revenues_over_costs, Print [250, 1500, 1980 / 197, 16500, 4925 / 3]]"
proof -
  have a: "available (stub_solver (Inr True) reported) = Inr True"
    by (simp add: stub_solver_def)
  from programs_solved [where SOLVER = "stub_solver (Inr True) reported"
      and debug = True and colab = False] a
  have l: "length (solved (trace (notebook_04 True False (stub_solver (Inr True) reported)))) = 1 \<and>
      length (solved (trace (notebook_05 True False (stub_solver (Inr True) reported)))) = 2"
    by blast
  have lin: "BIM_linear_report reported = [650, 1100, 15925, 17700, 1775]"
    by (simp add: BIM_linear_report_def objective_minus_costs revenue_def variable_cost_def
        fixed_cost_def reported_def)
  have frac: "BIM_fractional_report reported = Inr [250, 1500, 1980 / 197, 16500, 4925 / 3]"
    by (simp add: BIM_fractional_report_def Let_def recovered_def objective_over_costs
        revenue_def variable_cost_def fixed_cost_def reported_def)
  have n: "notebook_05 True False (stub_solver (Inr True) reported) =
     Inr [SolverFactory ''appsi_highs'', Available,
          Solve BIM_with_revenues_minus_costs, Print [650, 1100, 15925, 17700, 1775],
          Solve BIM_with_revenues_over_costs, Print [250, 1500, 1980 / 197, 16500, 4925 / 3]]"
    by (simp add: notebook_05_def and_then_def preamble_def pip_installs_def BIM_linear_cell_def
        BIM_fractional_cell_def Let_def solver_def stub_solver_def lin frac)
  from a l n show ?thesis by simp
qed

text \<open>
  C8 as written fails on notebook 2.4: a run with the solver available solves one linear
  program there, not two.
\<close>

theorem notebook_04_solves_one:
  "length (solved (trace (notebook_04 True False
      (stub_solver (Inr True) (point3 (1750 / 3) (3500 / 3) 17500))))) = 1 \<and>
   length (solved (trace (notebook_04 True False
      (stub_solver (Inr True) (point3 (1750 / 3) (3500 / 3) 17500))))) \<noteq> 2"
  by (simp add: solved_notebook_04 stub_solver_def)

end
